theory Spec2Isabelle
  imports Main "HOL-Library.AList"
begin

section \<open>Python values and exceptions\<close>

text \<open>
  The bridge is Python code (\<^verbatim>\<open>src/view.py\<close>). Python integers are unbounded and
  are modelled as \<open>int\<close>. A Python \<^verbatim>\<open>str\<close> is modelled as \<open>string\<close>, one
  \<open>char\<close> per code point, which covers every code point below 256; all key names and
  control sequences of the key table are ASCII. An exception that the source lets escape is
  a value \<open>Inl e\<close> of the result type.
\<close>

datatype exc = TypeError | AttributeError | IndexError

section \<open>Key translation: \<^verbatim>\<open>KEYMAP\<close> and \<^verbatim>\<open>keymap\<close>\<close>

definition ESC :: char where
  "ESC = CHR 0x1B"

text \<open>\<^verbatim>\<open>KEYMAP\<close> (lines 7-17), in source order.\<close>

definition KEYMAP :: "(string \<times> string) list" where
  "KEYMAP =
    [(''backspace'', [CHR 0x08]),
     (''enter'', [CHR 0x0A]),
     (''escape'', [ESC]),
     (''space'', '' ''),
     (''tab'', [CHR 0x09]),
     (''up'', ESC # ''[A''),
     (''down'', ESC # ''[B''),
     (''right'', ESC # ''[C''),
     (''left'', ESC # ''[D'')]"

text \<open>\<^verbatim>\<open>d.get(k, default)\<close> on a dictionary given as an association list.\<close>

definition dict_get :: "('k \<times> 'v) list \<Rightarrow> 'k \<Rightarrow> 'v \<Rightarrow> 'v" where
  "dict_get d k dflt = (case map_of d k of Some v \<Rightarrow> v | None \<Rightarrow> dflt)"

text \<open>
  \<^verbatim>\<open>s.split(sep)\<close> for a one-character separator: the pieces between the separators, of
  which there is always at least one.
\<close>

fun split_py :: "char \<Rightarrow> string \<Rightarrow> string list" where
  "split_py sep [] = [[]]"
| "split_py sep (c # cs) =
     (if c = sep then [] # split_py sep cs
      else (case split_py sep cs of
              [] \<Rightarrow> [[c]]
            | p # ps \<Rightarrow> (c # p) # ps))"

text \<open>
  \<^verbatim>\<open>s.rsplit(sep, 1)\<close> for a one-character separator that occurs in \<open>s\<close>: the text
  before the last separator and the text after it.
\<close>

definition rsplit1 :: "char \<Rightarrow> string \<Rightarrow> string \<times> string" where
  "rsplit1 sep s =
     (rev (tl (dropWhile (\<lambda>c. c \<noteq> sep) (rev s))),
      rev (takeWhile (\<lambda>c. c \<noteq> sep) (rev s)))"

text \<open>\<^verbatim>\<open>ord(s)\<close> raises \<^verbatim>\<open>TypeError\<close> unless \<open>s\<close> has exactly one character.\<close>

definition ord_py :: "string \<Rightarrow> exc + int" where
  "ord_py s = (case s of [c] \<Rightarrow> Inr (of_char c) | _ \<Rightarrow> Inl TypeError)"

text \<open>\<^verbatim>\<open>chr(n)\<close>, used by the source only at \<open>n mod 128\<close>.\<close>

definition chr_py :: "int \<Rightarrow> string" where
  "chr_py n = [char_of n]"

text \<open>
  \<^verbatim>\<open>keymap\<close> (lines 19-28). The name \<^verbatim>\<open>key\<close> is rebound to the base segment inside
  the chord branch, so the final table lookup of a chord is on the base segment. Python's
  \<^verbatim>\<open>%\<close> with a positive modulus is \<open>mod\<close> on \<open>int\<close>.
\<close>

definition keymap :: "string \<Rightarrow> exc + string" where
  "keymap key0 =
     (if CHR ''+'' \<in> set key0 \<and> key0 \<noteq> ''+'' then
        (let (mods0, key) = rsplit1 (CHR ''+'') key0;
             mods = split_py (CHR ''+'') mods0
         in if mods = [''ctrl''] then
              (case ord_py key of
                 Inl e \<Rightarrow> Inl e
               | Inr b \<Rightarrow>
                   if b \<ge> 63 \<and> b < 96 then Inr (chr_py ((b - 64) mod 128))
                   else Inr (dict_get KEYMAP key key))
            else Inr (dict_get KEYMAP key key))
      else Inr (dict_get KEYMAP key0 key0))"

section \<open>Selection shape resolver: \<^verbatim>\<open>ViewMeta.visual\<close>\<close>

text \<open>
  The host surface answers three line-geometry queries, which the resolver calls as
  \<^verbatim>\<open>view.text_point(row, col)\<close>, \<^verbatim>\<open>view.line(point)\<close> (a region, given here by its
  two ends \<open>a\<close> and \<open>b\<close>) and \<^verbatim>\<open>view.rowcol(point)\<close>. The host is not part of the
  bridge, so the three queries are the fields of a record that the resolver takes as its
  \<^verbatim>\<open>view\<close>. A host region \<^verbatim>\<open>sublime.Region(a, b)\<close> is the pair \<open>(a, b)\<close>.
\<close>

type_synonym region = "int \<times> int"
type_synonym rowcol = "int \<times> int"

record geometry =
  text_point :: "int \<Rightarrow> int \<Rightarrow> int"
  line :: "int \<Rightarrow> region"
  rowcol :: "int \<Rightarrow> rowcol"

text \<open>
  The loop of the block branch (lines 104-110) over the rows still to visit, with the list
  \<^verbatim>\<open>regions\<close> built so far.
\<close>

fun block_loop :: "geometry \<Rightarrow> int \<Rightarrow> int \<Rightarrow> int list \<Rightarrow> region list \<Rightarrow> region list" where
  "block_loop view left right [] regions = regions"
| "block_loop view left right (i # rows) regions =
     (let ln = line view (text_point view i 0);
          end = snd (rowcol view (snd ln))
      in if left \<le> end then
           (let a = text_point view i left;
                b = text_point view i (min right end)
            in block_loop view left right rows (regions @ [(a, b)]))
         else block_loop view left right rows regions)"

text \<open>
  \<^verbatim>\<open>visual\<close> (lines 70-114). The mode is the engine's mode string: \<^verbatim>\<open>'V'\<close> for line
  mode, \<^verbatim>\<open>'v'\<close> for character mode, \<^verbatim>\<open>'\x16'\<close> for block mode. The assignment of
  line 102 is overwritten before it is read and is left out. \<^verbatim>\<open>range(top, bot + 1)\<close> is
  \<open>[top..bot]\<close>.
\<close>

definition visual :: "geometry \<Rightarrow> string \<Rightarrow> rowcol \<Rightarrow> rowcol \<Rightarrow> region list" where
  "visual view mode a0 b0 =
     (let (sr, sc) = a0;
          (er, ec) = b0;
          a = text_point view sr sc;
          b = text_point view er ec
      in if mode = ''V'' then
           (let (start, end) =
                  (if a > b then (snd (line view a), fst (line view b))
                   else (fst (line view a), snd (line view b)))
            in [(start, end)])
         else if mode = ''v'' then
           (let (a', b') = (if a > b then (a + 1, b) else (a, b + 1))
            in [(a', b')])
         else if mode = [CHR 0x16] then
           (let left = min sc ec;
                right = max sc ec + 1;
                top = min sr er;
                bot = max sr er
            in block_loop view left right [top..bot] [])
         else [(a, b)])"

text \<open>
  The end column of a row, as the block branch computes it: the column of the end of the
  line that holds the row's first point.
\<close>

definition end_column :: "geometry \<Rightarrow> int \<Rightarrow> int" where
  "end_column view r = snd (rowcol view (snd (line view (text_point view r 0))))"

text \<open>
  The extent of a host region, whichever way round it is:
  \<^verbatim>\<open>(region.begin(), region.end())\<close>.
\<close>

definition span :: "region \<Rightarrow> region" where
  "span r = (min (fst r) (snd r), max (fst r) (snd r))"

text \<open>
  A geometry for the examples: a document whose rows have the given lengths, each row but
  the last followed by one newline character.
\<close>

definition row_start :: "int list \<Rightarrow> nat \<Rightarrow> int" where
  "row_start lens r = sum_list (map (\<lambda>l. l + 1) (take r lens))"

fun doc_rowcol :: "int list \<Rightarrow> int \<Rightarrow> int \<Rightarrow> rowcol" where
  "doc_rowcol [] r p = (r, p)"
| "doc_rowcol [l] r p = (r, p)"
| "doc_rowcol (l # l' # lens) r p =
     (if p \<le> l then (r, p) else doc_rowcol (l' # lens) (r + 1) (p - (l + 1)))"

definition doc_geometry :: "int list \<Rightarrow> geometry" where
  "doc_geometry lens =
     \<lparr> text_point = (\<lambda>r c. row_start lens (nat r) + c),
       line = (\<lambda>p. let (r, c) = doc_rowcol lens 0 p;
                        s = row_start lens (nat r)
                    in (s, s + (if nat r < length lens then lens ! nat r else 0))),
       rowcol = (\<lambda>p. doc_rowcol lens 0 p) \<rparr>"

section \<open>Host surfaces, Python objects and the registry \<^verbatim>\<open>_views\<close>\<close>

text \<open>
  A host view handle. \<^verbatim>\<open>view.id()\<close> is \<open>view_id\<close>. The host can give the id of a
  destroyed surface to a new one, so a handle has a second component that tells the
  surfaces that have carried the same id apart; \<^verbatim>\<open>==\<close> and \<^verbatim>\<open>!=\<close> on handles are
  equality and inequality of the two components.
\<close>

record view =
  view_id :: nat
  view_serial :: nat

text \<open>The Python values that the bridge stores in attributes and in host settings.\<close>

datatype pyval =
    PyNone
  | PyBool bool
  | PyInt int
  | PyStr string
  | PyView view
  | PySel "region list"
  | PyBuf nat

text \<open>Python truthiness, as the \<^verbatim>\<open>if\<close> of line 119 applies it to a settings value.\<close>

fun truthy :: "pyval \<Rightarrow> bool" where
  "truthy PyNone = False"
| "truthy (PyBool b) = b"
| "truthy (PyInt n) = (n \<noteq> 0)"
| "truthy (PyStr s) = (s \<noteq> [])"
| "truthy (PyView v) = True"
| "truthy (PySel rs) = (rs \<noteq> [])"
| "truthy (PyBuf h) = True"

text \<open>
  The state of the host that the bridge reads and writes: per surface its settings, its
  text and its selection; the selection writes handed to \<^verbatim>\<open>Edit.defer\<close> and not yet
  run; and the text edits that were committed, one entry for each \<^verbatim>\<open>with Edit(view)\<close>
  block, holding the replacements made in the block.
\<close>

record host =
  h_settings :: "view \<Rightarrow> (string \<rightharpoonup> pyval)"
  h_text :: "view \<Rightarrow> string"
  h_sel :: "view \<Rightarrow> region list"
  h_deferred :: "(view \<times> region list) list"
  h_edits :: "(view \<times> (region \<times> string) list) list"

definition settings_set :: "view \<Rightarrow> string \<Rightarrow> pyval \<Rightarrow> host \<Rightarrow> host" where
  "settings_set v k x h = h\<lparr>h_settings := (h_settings h)(v := (h_settings h v)(k \<mapsto> x))\<rparr>"

definition settings_get :: "view \<Rightarrow> string \<Rightarrow> host \<Rightarrow> pyval" where
  "settings_get v k h = (case h_settings h v k of None \<Rightarrow> PyNone | Some x \<Rightarrow> x)"

text \<open>
  A class is known by its name and by the generation of the module that defined it: the
  module keeps \<^verbatim>\<open>_views\<close> across a reload (lines 37-40) and defines its classes anew.
  What the registry needs of a class is its initialiser \<^verbatim>\<open>__init__\<close>, which fills the
  instance dictionary, may change the host and may raise.
\<close>

type_synonym class_tag = "string \<times> nat"
type_synonym attrs = "string \<rightharpoonup> pyval"

record pyclass =
  cls_tag :: class_tag
  cls_init :: "view \<Rightarrow> host \<Rightarrow> (exc + attrs) \<times> host"

text \<open>
  An object: its identity, its class and its \<^verbatim>\<open>__dict__\<close>. Identities are handed out
  from a counter of the world, so two objects made at different times differ.
\<close>

record pyobj =
  inst_id :: nat
  inst_class :: class_tag
  inst_dict :: attrs

text \<open>
  The world: the module-level dictionary \<^verbatim>\<open>_views\<close> (an association list in the
  dictionary's order, with \<open>AList.update\<close> for item assignment), the counter of object
  identities, the host, and the number of tracebacks printed.
\<close>

record world =
  views :: "(nat \<times> pyobj) list"
  fresh :: nat
  host :: host
  tracebacks :: nat

text \<open>\<^verbatim>\<open>ViewMeta.__init__\<close> (lines 60-62).\<close>

definition ViewMeta_init :: "view \<Rightarrow> host \<Rightarrow> (exc + attrs) \<times> host" where
  "ViewMeta_init v h = (Inr [''view'' \<mapsto> PyView v, ''last_sel'' \<mapsto> PyNone], h)"

text \<open>
  \<^verbatim>\<open>ActualVim.__init__\<close> (lines 117-131): the initialiser of the base class, the early
  return for a proxied surface, the three settings in the order of the dictionary
  literal, and the attribute \<^verbatim>\<open>buf\<close>.
\<close>

definition ActualVim_init :: "view \<Rightarrow> host \<Rightarrow> (exc + attrs) \<times> host" where
  "ActualVim_init v h =
     (case ViewMeta_init v h of
        (Inl e, h1) \<Rightarrow> (Inl e, h1)
      | (Inr d, h1) \<Rightarrow>
          if truthy (settings_get v ''actual_proxy'' h1) then (Inr d, h1)
          else
            (let h2 = settings_set v ''actual_intercept'' (PyBool True) h1;
                 h3 = settings_set v ''actual_mode'' (PyBool True) h2;
                 h4 = settings_set v ''inverse_caret_state'' (PyBool True) h3
             in (Inr (d(''buf'' \<mapsto> PyNone)), h4)))"

definition ViewMeta :: "nat \<Rightarrow> pyclass" where
  "ViewMeta g = \<lparr>cls_tag = (''ViewMeta'', g), cls_init = ViewMeta_init\<rparr>"

definition ActualVim :: "nat \<Rightarrow> pyclass" where
  "ActualVim g = \<lparr>cls_tag = (''ActualVim'', g), cls_init = ActualVim_init\<rparr>"

text \<open>
  \<^verbatim>\<open>cls.__new__(cls)\<close>: a blank object of the class, whose \<^verbatim>\<open>__dict__\<close> is empty
  because \<^verbatim>\<open>__init__\<close> has not run. It takes the next identity.
\<close>

definition cls_new :: "pyclass \<Rightarrow> nat \<Rightarrow> pyobj" where
  "cls_new cls n = \<lparr>inst_id = n, inst_class = cls_tag cls, inst_dict = Map.empty\<rparr>"

text \<open>
  \<^verbatim>\<open>cls(view)\<close>: a blank object on which the initialiser runs. The result is the
  exception or the object, with the host as the initialiser left it.
\<close>

definition construct :: "pyclass \<Rightarrow> view \<Rightarrow> world \<Rightarrow> (exc + pyobj) \<times> world" where
  "construct cls v w =
     (let new = cls_new cls (fresh w);
          w1 = w\<lparr>fresh := fresh w + 1\<rparr>
      in case cls_init cls v (host w1) of
           (Inl e, h) \<Rightarrow> (Inl e, w1\<lparr>host := h\<rparr>)
         | (Inr d, h) \<Rightarrow> (Inr (new\<lparr>inst_dict := inst_dict new ++ d\<rparr>), w1\<lparr>host := h\<rparr>))"

text \<open>
  Reading the attribute \<^verbatim>\<open>view\<close> of a registered object: it is an instance attribute
  only, so the read raises \<^verbatim>\<open>AttributeError\<close> when the dictionary lacks it.
\<close>

definition getattr :: "pyobj \<Rightarrow> string \<Rightarrow> exc + pyval" where
  "getattr m name = (case inst_dict m name of None \<Rightarrow> Inl AttributeError | Some x \<Rightarrow> Inr x)"

text \<open>
  \<^verbatim>\<open>ViewMeta.get\<close> (lines 44-58). A registered object is truthy, so \<^verbatim>\<open>not m\<close> holds
  exactly when the id is not in \<^verbatim>\<open>_views\<close>. The conjunction of line 55 reads
  \<^verbatim>\<open>m.view\<close> only when \<^verbatim>\<open>m\<close> is there and \<^verbatim>\<open>exact\<close> holds. The result is the
  returned object, or \<open>None\<close> for Python's \<^verbatim>\<open>None\<close>, and the world after the call.
\<close>

definition get :: "pyclass \<Rightarrow> view \<Rightarrow> bool \<Rightarrow> bool \<Rightarrow> world \<Rightarrow> exc + (pyobj option \<times> world)" where
  "get cls v create exact w =
     (let vid = view_id v;
          m = map_of (views w) vid
      in if m = None \<and> create then
           (case construct cls v w of
              (Inl e, w1) \<Rightarrow> Inr (None, w1\<lparr>tracebacks := tracebacks w1 + 1\<rparr>)
            | (Inr new, w1) \<Rightarrow> Inr (Some new, w1\<lparr>views := AList.update vid new (views w1)\<rparr>))
         else
           (case m of
              None \<Rightarrow> Inr (None, w)
            | Some old \<Rightarrow>
                if exact then
                  (case getattr old ''view'' of
                     Inl e \<Rightarrow> Inl e
                   | Inr x \<Rightarrow> if x \<noteq> PyView v then Inr (None, w) else Inr (Some old, w))
                else Inr (Some old, w)))"

text \<open>
  \<^verbatim>\<open>ActualVim.reload_classes\<close> (lines 133-143). The loop runs over the items that
  \<^verbatim>\<open>_views\<close> has when it starts; the body assigns only to the key it is visiting, which
  the dictionary already has, so the items still to come are not changed by it. The
  three \<^verbatim>\<open>update\<close> calls are \<open>++\<close> on dictionaries, the right operand winning.
\<close>

fun reload_loop :: "pyclass \<Rightarrow> (nat \<times> pyobj) list \<Rightarrow> world \<Rightarrow> world" where
  "reload_loop cls [] w = w"
| "reload_loop cls ((vid, old) # items) w =
     (let new = cls_new cls (fresh w);
          nd = Map.empty;
          nd = nd ++ inst_dict old;
          nd = nd ++ inst_dict new;
          new = new\<lparr>inst_dict := inst_dict new ++ nd\<rparr>
      in reload_loop cls items
           (w\<lparr>fresh := fresh w + 1, views := AList.update vid new (views w)\<rparr>))"

definition reload_classes :: "pyclass \<Rightarrow> world \<Rightarrow> world" where
  "reload_classes cls w = reload_loop cls (views w) w"

text \<open>
  Worlds for the examples: a host with no settings, empty texts and empty selections; the
  world of a freshly loaded module; two handles with the id 7, for a surface and for the
  surface that got its id later; a handle with the id 8.
\<close>

definition host0 :: host where
  "host0 = \<lparr>h_settings = (\<lambda>v. Map.empty), h_text = (\<lambda>v. []), h_sel = (\<lambda>v. []),
            h_deferred = [], h_edits = []\<rparr>"

definition world0 :: world where
  "world0 = \<lparr>views = [], fresh = 0, host = host0, tracebacks = 0\<rparr>"

definition view7 :: view where
  "view7 = \<lparr>view_id = 7, view_serial = 0\<rparr>"

definition view7' :: view where
  "view7' = \<lparr>view_id = 7, view_serial = 1\<rparr>"

definition view8 :: view where
  "view8 = \<lparr>view_id = 8, view_serial = 0\<rparr>"

text \<open>
  The object that \<^verbatim>\<open>ViewMeta.get(view7)\<close> makes in the fresh world, after
  \<^verbatim>\<open>sel_changed\<close> has stored the selection snapshot \<^verbatim>\<open>[(3, 3)]\<close> in it, and the world
  whose registry holds it.
\<close>

definition meta7 :: pyobj where
  "meta7 = \<lparr>inst_id = 0, inst_class = (''ViewMeta'', 0),
            inst_dict = [''view'' \<mapsto> PyView view7, ''last_sel'' \<mapsto> PySel [(3, 3)]]\<rparr>"

definition world7 :: world where
  "world7 = \<lparr>views = [(7, meta7)], fresh = 1, host = host0, tracebacks = 0\<rparr>"

text \<open>
  Reading an attribute of the object registered under an id: \<open>None\<close> when the id is not
  registered.
\<close>

definition view_attr :: "world \<Rightarrow> nat \<Rightarrow> string \<Rightarrow> (exc + pyval) option" where
  "view_attr w vid name = map_option (\<lambda>m. getattr m name) (map_of (views w) vid)"

section \<open>The bridge of one surface: \<^verbatim>\<open>activate\<close>, \<^verbatim>\<open>sel_to_vim\<close>, \<^verbatim>\<open>sel_from_vim\<close>, \<^verbatim>\<open>press\<close>\<close>

text \<open>
  The module \<^verbatim>\<open>neo\<close> of the repository is not among the sources. The bridge uses its
  object \<^verbatim>\<open>neo.vim\<close> and two of its constants, which are taken here as a parameter: a
  record of operations on an engine state of any type \<open>'e\<close>. A buffer of the engine is
  known by a handle; \<^verbatim>\<open>buf[:] = lines\<close> is \<open>buf_set\<close> and \<^verbatim>\<open>buf[:]\<close> is
  \<open>buf_get\<close>; \<^verbatim>\<open>vim.select(b)\<close> is \<open>vim_select b None\<close> and \<^verbatim>\<open>vim.select(a, b)\<close>
  is \<open>vim_select a (Some b)\<close>. The calls are taken to return.
\<close>

record 'e neo =
  buf_new :: "'e \<Rightarrow> nat \<times> 'e"
  buf_set :: "nat \<Rightarrow> string list \<Rightarrow> 'e \<Rightarrow> 'e"
  buf_get :: "nat \<Rightarrow> 'e \<Rightarrow> string list"
  buf_activate :: "nat \<Rightarrow> 'e \<Rightarrow> 'e"
  vim_press :: "string \<Rightarrow> 'e \<Rightarrow> 'e"
  vim_select :: "rowcol \<Rightarrow> rowcol option \<Rightarrow> 'e \<Rightarrow> 'e"
  vim_sel :: "'e \<Rightarrow> rowcol \<times> rowcol"
  vim_mode :: "'e \<Rightarrow> string"
  INSERT_MODES :: "string list"
  VISUAL_MODES :: "string list"

text \<open>
  What a method of the bridge works on: the object \<^verbatim>\<open>self\<close>, the host and the engine.
\<close>

record 'e bridge =
  self :: pyobj
  bhost :: host
  vim :: "'e"

definition setattr :: "pyobj \<Rightarrow> string \<Rightarrow> pyval \<Rightarrow> pyobj" where
  "setattr m name x = m\<lparr>inst_dict := (inst_dict m)(name \<mapsto> x)\<rparr>"

text \<open>
  \<^verbatim>\<open>self.view\<close> where a method of the host is called on it next: the attribute has to
  be there and to be a view.
\<close>

definition self_view :: "'e bridge \<Rightarrow> exc + view" where
  "self_view st =
     (case getattr (self st) ''view'' of
        Inl e \<Rightarrow> Inl e
      | Inr (PyView v) \<Rightarrow> Inr v
      | Inr _ \<Rightarrow> Inl AttributeError)"

text \<open>\<^verbatim>\<open>'\n'.join(lines)\<close>.\<close>

fun join_py :: "string \<Rightarrow> string list \<Rightarrow> string" where
  "join_py sep [] = []"
| "join_py sep [l] = l"
| "join_py sep (l # l' # ls) = l @ sep @ join_py sep (l' # ls)"

text \<open>
  Modelled from the spec: the class \<^verbatim>\<open>Edit\<close> of the module \<^verbatim>\<open>edit\<close>, which is not
  among the sources. A block \<^verbatim>\<open>with Edit(view) as edit\<close> is a single scoped edit
  transaction: the replacements made in the block are applied to the text of the surface
  together when the block is left, and the host records the transaction.
  \<^verbatim>\<open>Edit.defer(view, f)\<close> schedules a selection write to run after the current handler
  has returned: the write joins the queue of the host.
\<close>

definition apply_replace :: "string \<Rightarrow> region \<times> string \<Rightarrow> string" where
  "apply_replace text r = take (nat (fst (fst r))) text @ snd r @ drop (nat (snd (fst r))) text"

definition Edit_block :: "view \<Rightarrow> (region \<times> string) list \<Rightarrow> host \<Rightarrow> host" where
  "Edit_block v steps h =
     h\<lparr>h_text := (h_text h)(v := foldl apply_replace (h_text h v) steps),
       h_edits := h_edits h @ [(v, steps)]\<rparr>"

definition Edit_defer :: "view \<Rightarrow> region list \<Rightarrow> host \<Rightarrow> host" where
  "Edit_defer v sel h = h\<lparr>h_deferred := h_deferred h @ [(v, sel)]\<rparr>"

text \<open>\<^verbatim>\<open>copy_sel\<close> (lines 31-34) on a view: the pairs of the regions of its selection.\<close>

definition copy_sel :: "view \<Rightarrow> host \<Rightarrow> region list" where
  "copy_sel v h = h_sel h v"

text \<open>\<^verbatim>\<open>ViewMeta.sel_changed\<close> (lines 64-68).\<close>

definition sel_changed :: "'e bridge \<Rightarrow> exc + (bool \<times> 'e bridge)" where
  "sel_changed st =
     (case self_view st of
        Inl e \<Rightarrow> Inl e
      | Inr v \<Rightarrow>
          (let new_sel = PySel (copy_sel v (bhost st))
           in case getattr (self st) ''last_sel'' of
                Inl e \<Rightarrow> Inl e
              | Inr prev \<Rightarrow>
                  Inr (new_sel \<noteq> prev, st\<lparr>self := setattr (self st) ''last_sel'' new_sel\<rparr>)))"

text \<open>
  \<^verbatim>\<open>ActualVim.sel_from_vim\<close> (lines 189-202) as both of its callers call it, without
  an \<^verbatim>\<open>edit\<close>. The geometry of the surface is a function \<open>G\<close> of its text, a parameter
  as the host is.
\<close>

definition sel_from_vim :: "'e neo \<Rightarrow> (string \<Rightarrow> geometry) \<Rightarrow> 'e bridge \<Rightarrow> exc + 'e bridge" where
  "sel_from_vim N G st =
     (let (a, b) = vim_sel N (vim st)
      in case self_view st of
           Inl e \<Rightarrow> Inl e
         | Inr v \<Rightarrow>
             (let new_sel = visual (G (h_text (bhost st) v)) (vim_mode N (vim st)) a b
              in Inr (st\<lparr>bhost := Edit_defer v new_sel (bhost st)\<rparr>)))"

text \<open>\<^verbatim>\<open>ActualVim.update_caret\<close> (lines 158-161).\<close>

definition update_caret :: "'e neo \<Rightarrow> 'e bridge \<Rightarrow> exc + 'e bridge" where
  "update_caret N st =
     (let mode = vim_mode N (vim st);
          wide = (mode \<notin> set (INSERT_MODES N @ VISUAL_MODES N))
      in case self_view st of
           Inl e \<Rightarrow> Inl e
         | Inr v \<Rightarrow>
             Inr (st\<lparr>bhost := settings_set v ''inverse_caret_state'' (PyBool wide) (bhost st)\<rparr>))"

text \<open>
  Line 156, \<^verbatim>\<open>neo.vim.buf_activate(self.buf)\<close>: all that \<^verbatim>\<open>activate\<close> does once
  \<^verbatim>\<open>self.buf\<close> is set.
\<close>

definition activate_focus :: "'e neo \<Rightarrow> 'e bridge \<Rightarrow> exc + 'e bridge" where
  "activate_focus N st =
     (case getattr (self st) ''buf'' of
        Inl e \<Rightarrow> Inl e
      | Inr (PyBuf h) \<Rightarrow> Inr (st\<lparr>vim := buf_activate N h (vim st)\<rparr>)
      | Inr _ \<Rightarrow> Inl TypeError)"

text \<open>
  Lines 173-187 of \<^verbatim>\<open>sel_to_vim\<close>, after its call of \<^verbatim>\<open>activate\<close>.
  \<^verbatim>\<open>self.view.sel()[0]\<close> raises \<^verbatim>\<open>IndexError\<close> on an empty selection.
\<close>

definition sel_to_vim_body :: "'e neo \<Rightarrow> (string \<Rightarrow> geometry) \<Rightarrow> 'e bridge \<Rightarrow> exc + 'e bridge" where
  "sel_to_vim_body N G st =
     (case sel_changed st of
        Inl e \<Rightarrow> Inl e
      | Inr (changed, st1) \<Rightarrow>
          if changed then
            (case self_view st1 of
               Inl e \<Rightarrow> Inl e
             | Inr v \<Rightarrow>
                 (case h_sel (bhost st1) v of
                    [] \<Rightarrow> Inl IndexError
                  | sel # _ \<Rightarrow>
                      (let g = G (h_text (bhost st1) v);
                           b = rowcol g (snd sel);
                           e = (if snd sel = fst sel then vim_select N b None (vim st1)
                                else (let a = rowcol g (fst sel)
                                      in vim_select N a (Some b) (vim st1)))
                       in case sel_from_vim N G (st1\<lparr>vim := e\<rparr>) of
                            Inl e \<Rightarrow> Inl e
                          | Inr st2 \<Rightarrow> update_caret N st2)))
          else Inr st1)"

text \<open>
  \<^verbatim>\<open>ActualVim.activate\<close> (lines 149-156). On the first activation it calls
  \<^verbatim>\<open>sel_to_vim\<close>, which calls \<^verbatim>\<open>activate\<close> again; by then \<^verbatim>\<open>self.buf\<close> is the new
  buffer, so that inner call is \<open>activate_focus\<close>.
\<close>

definition activate :: "'e neo \<Rightarrow> (string \<Rightarrow> geometry) \<Rightarrow> 'e bridge \<Rightarrow> exc + 'e bridge" where
  "activate N G st =
     (case getattr (self st) ''buf'' of
        Inl e \<Rightarrow> Inl e
      | Inr buf \<Rightarrow>
          if buf = PyNone then
            (let (h, e) = buf_new N (vim st);
                 st1 = st\<lparr>self := setattr (self st) ''buf'' (PyBuf h), vim := e\<rparr>
             in case self_view st1 of
                  Inl e \<Rightarrow> Inl e
                | Inr v \<Rightarrow>
                    (let text = h_text (bhost st1) v;
                         st2 = st1\<lparr>vim := buf_set N h (split_py (CHR 0x0A) text) (vim st1)\<rparr>
                     in case activate_focus N st2 of
                          Inl e \<Rightarrow> Inl e
                        | Inr st3 \<Rightarrow>
                            (case sel_to_vim_body N G st3 of
                               Inl e \<Rightarrow> Inl e
                             | Inr st4 \<Rightarrow> activate_focus N st4)))
          else activate_focus N st)"

text \<open>\<^verbatim>\<open>ActualVim.sel_to_vim\<close> (lines 169-187).\<close>

definition sel_to_vim :: "'e neo \<Rightarrow> (string \<Rightarrow> geometry) \<Rightarrow> 'e bridge \<Rightarrow> exc + 'e bridge" where
  "sel_to_vim N G st =
     (case activate N G st of
        Inl e \<Rightarrow> Inl e
      | Inr st1 \<Rightarrow> sel_to_vim_body N G st1)"

text \<open>
  \<^verbatim>\<open>ActualVim.press\<close> (lines 204-223). The argument \<^verbatim>\<open>keymap(key)\<close> is evaluated
  before the engine is called. \<^verbatim>\<open>everything\<close> is the region from 0 to the size of the
  text, and \<^verbatim>\<open>view.substr(everything)\<close> is the text.
\<close>

definition press :: "'e neo \<Rightarrow> (string \<Rightarrow> geometry) \<Rightarrow> string \<Rightarrow> 'e bridge \<Rightarrow> exc + 'e bridge" where
  "press N G key st =
     (case activate N G st of
        Inl e \<Rightarrow> Inl e
      | Inr st1 \<Rightarrow>
          (case getattr (self st1) ''buf'' of
             Inl e \<Rightarrow> Inl e
           | Inr PyNone \<Rightarrow> Inr st1
           | Inr (PyBuf h) \<Rightarrow>
               (case keymap key of
                  Inl e \<Rightarrow> Inl e
                | Inr k \<Rightarrow>
                    (let st2 = st1\<lparr>vim := vim_press N k (vim st1)\<rparr>;
                         text = join_py [CHR 0x0A] (buf_get N h (vim st2))
                     in case self_view st2 of
                          Inl e \<Rightarrow> Inl e
                        | Inr v \<Rightarrow>
                            (let everything = (0, int (length (h_text (bhost st2) v)));
                                 st3 = (if h_text (bhost st2) v \<noteq> text
                                        then st2\<lparr>bhost := Edit_block v [(everything, text)] (bhost st2)\<rparr>
                                        else st2)
                             in case sel_from_vim N G st3 of
                                  Inl e \<Rightarrow> Inl e
                                | Inr st4 \<Rightarrow> update_caret N st4)))
           | Inr _ \<Rightarrow> Inl TypeError))"

text \<open>
  An engine for the examples. A key other than escape is appended to the last line of the
  current buffer; escape only sets the mode.
\<close>

record toy =
  toy_lines :: "nat \<Rightarrow> string list"
  toy_next :: nat
  toy_cur :: nat
  toy_mode :: string
  toy_sel :: "rowcol \<times> rowcol"

definition toy_press :: "string \<Rightarrow> toy \<Rightarrow> toy" where
  "toy_press k e =
     (if k = [ESC] then e\<lparr>toy_mode := ''n''\<rparr>
      else (case rev (toy_lines e (toy_cur e)) of
              [] \<Rightarrow> e\<lparr>toy_lines := (toy_lines e)(toy_cur e := [k])\<rparr>
            | l # ls \<Rightarrow> e\<lparr>toy_lines := (toy_lines e)(toy_cur e := rev ((l @ k) # ls))\<rparr>))"

definition toy_neo :: "toy neo" where
  "toy_neo =
     \<lparr>buf_new = (\<lambda>e. (toy_next e, e\<lparr>toy_next := toy_next e + 1\<rparr>)),
      buf_set = (\<lambda>h ls e. e\<lparr>toy_lines := (toy_lines e)(h := ls)\<rparr>),
      buf_get = (\<lambda>h e. toy_lines e h),
      buf_activate = (\<lambda>h e. e\<lparr>toy_cur := h\<rparr>),
      vim_press = toy_press,
      vim_select = (\<lambda>a b e. e\<lparr>toy_sel := (case b of None \<Rightarrow> (a, a) | Some b' \<Rightarrow> (a, b'))\<rparr>),
      vim_sel = toy_sel,
      vim_mode = toy_mode,
      INSERT_MODES = [''i''],
      VISUAL_MODES = [''v'', ''V'', [CHR 0x16]]\<rparr>"

definition toy0 :: toy where
  "toy0 = \<lparr>toy_lines = (\<lambda>h. []), toy_next = 0, toy_cur = 0, toy_mode = ''i'',
           toy_sel = ((0, 0), (0, 0))\<rparr>"

text \<open>
  The geometry of a text for the examples, from the lengths of its rows, and a bridge for
  the surface \<open>view8\<close>: the object that \<^verbatim>\<open>ActualVim(view8)\<close> makes, on a host where
  the surface holds the text \<^verbatim>\<open>ab\<close> with the caret at offset 0.
\<close>

definition text_geometry :: "string \<Rightarrow> geometry" where
  "text_geometry text = doc_geometry (map (\<lambda>l. int (length l)) (split_py (CHR 0x0A) text))"

definition actual8 :: pyobj where
  "actual8 = \<lparr>inst_id = 0, inst_class = (''ActualVim'', 0),
              inst_dict = [''view'' \<mapsto> PyView view8, ''last_sel'' \<mapsto> PyNone, ''buf'' \<mapsto> PyNone]\<rparr>"

definition bridge8 :: "toy bridge" where
  "bridge8 = \<lparr>self = actual8,
              bhost = host0\<lparr>h_text := (h_text host0)(view8 := ''ab''),
                            h_sel := (h_sel host0)(view8 := [(0, 0)])\<rparr>,
              vim = toy0\<rparr>"

section \<open>The command-line panel adapter: \<^verbatim>\<open>ActualPanel\<close>\<close>

text \<open>
  What the adapter asks of the host is kept as the list of its calls:
  \<^verbatim>\<open>window.show_input_panel(caption, text, ...)\<close> on the window of a surface, and
  \<^verbatim>\<open>panel.close()\<close>. The host answers \<^verbatim>\<open>show_input_panel\<close> with the view of the new
  panel, which takes the next id. \<^verbatim>\<open>ActualVim.views\<close> is a class attribute that the
  source does not define: it is a parameter of the world, \<open>None\<close> when the class has no
  such attribute.
\<close>

datatype host_call = ShowInputPanel view string string | ClosePanel view

record panel_world =
  pw_calls :: "host_call list"
  pw_next :: nat
  pw_host :: host
  pw_views :: "(nat \<times> pyobj) list option"

record adapter =
  p_actual :: pyobj
  p_vim :: pyval
  p_view :: view
  p_panel :: "view option"

text \<open>\<^verbatim>\<open>ActualPanel.__init__\<close> (lines 234-238).\<close>

definition ActualPanel_init :: "pyobj \<Rightarrow> exc + adapter" where
  "ActualPanel_init actual =
     (case getattr actual ''vim'' of
        Inl e \<Rightarrow> Inl e
      | Inr x \<Rightarrow>
          (case getattr actual ''view'' of
             Inl e \<Rightarrow> Inl e
           | Inr (PyView v) \<Rightarrow>
               Inr \<lparr>p_actual = actual, p_vim = x, p_view = v, p_panel = None\<rparr>
           | Inr _ \<Rightarrow> Inl AttributeError))"

text \<open>\<^verbatim>\<open>ActualPanel.close\<close> (lines 240-242).\<close>

definition panel_close :: "adapter \<times> panel_world \<Rightarrow> adapter \<times> panel_world" where
  "panel_close s =
     (case p_panel (fst s) of
        None \<Rightarrow> s
      | Some panel \<Rightarrow> (fst s, (snd s)\<lparr>pw_calls := pw_calls (snd s) @ [ClosePanel panel]\<rparr>))"

text \<open>
  \<^verbatim>\<open>ActualPanel.show\<close> (lines 244-250). The result is the exception of line 250, if
  there is one, and the adapter and the world as the call leaves them.
\<close>

definition panel_show :: "string \<Rightarrow> adapter \<times> panel_world \<Rightarrow> exc option \<times> adapter \<times> panel_world" where
  "panel_show char s =
     (let ad = fst s;
          pw = snd s;
          panel = \<lparr>view_id = pw_next pw, view_serial = 0\<rparr>;
          pw1 = pw\<lparr>pw_calls := pw_calls pw @ [ShowInputPanel (p_view ad) ''Vim'' char],
                    pw_next := pw_next pw + 1\<rparr>;
          ad1 = ad\<lparr>p_panel := Some panel\<rparr>;
          h1 = settings_set panel ''actual_intercept'' (PyBool True) (pw_host pw1);
          h2 = settings_set panel ''actual_proxy'' (PyInt (int (view_id (p_view ad1)))) h1;
          pw2 = pw1\<lparr>pw_host := h2\<rparr>
      in case pw_views pw2 of
           None \<Rightarrow> (Some AttributeError, ad1, pw2)
         | Some d \<Rightarrow>
             (None, ad1, pw2\<lparr>pw_views := Some (AList.update (view_id panel) (p_actual ad1) d)\<rparr>))"

text \<open>
  An adapter and a world for the examples: the adapter of an object for \<open>view8\<close> that has
  an attribute \<^verbatim>\<open>vim\<close>, in a world where panels get the ids from 100 on and
  \<^verbatim>\<open>ActualVim.views\<close> is an empty dictionary.
\<close>

definition adapter8 :: adapter where
  "adapter8 =
     \<lparr>p_actual = \<lparr>inst_id = 0, inst_class = (''ActualVim'', 0),
                   inst_dict = [''view'' \<mapsto> PyView view8, ''vim'' \<mapsto> PyNone]\<rparr>,
      p_vim = PyNone, p_view = view8, p_panel = None\<rparr>"

definition pworld0 :: panel_world where
  "pworld0 = \<lparr>pw_calls = [], pw_next = 100, pw_host = host0, pw_views = Some []\<rparr>"

section \<open>Properties of the key translator\<close>

lemma rsplit1_ctrl_up: "rsplit1 (CHR ''+'') ''ctrl+up'' = (''ctrl'', ''up'')"
  by (simp add: rsplit1_def)

lemma keymap_named_keys:
  "keymap ''escape'' = Inr [ESC]"
  "keymap ''up'' = Inr (ESC # ''[A'')"
  "keymap ''+'' = Inr ''+''"
  "keymap ''x'' = Inr ''x''"
  "keymap ''shift+up'' = Inr (ESC # ''[A'')"
  by (simp_all add: keymap_def rsplit1_def dict_get_def KEYMAP_def)

lemma keymap_ctrl_chords:
  "keymap ''ctrl+A'' = Inr [CHR 0x01]"
  "keymap ''ctrl+?'' = Inr [CHR 0x7F]"
  "keymap ''ctrl+a'' = Inr ''a''"
  by (simp_all add: keymap_def rsplit1_def ord_py_def chr_py_def char_of_def
      dict_get_def KEYMAP_def)

text \<open>
  The only way \<^verbatim>\<open>keymap\<close> raises: a chord with the modifier list \<^verbatim>\<open>["ctrl"]\<close>
  whose base segment is not a single character.
\<close>

lemma keymap_raises_only_in_ctrl_branch:
  "keymap key = Inl e \<Longrightarrow>
   e = TypeError \<and> CHR ''+'' \<in> set key \<and>
   split_py (CHR ''+'') (fst (rsplit1 (CHR ''+'') key)) = [''ctrl''] \<and>
   length (snd (rsplit1 (CHR ''+'') key)) \<noteq> 1"
  by (auto simp add: keymap_def ord_py_def Let_def split: prod.splits list.splits if_splits)

text \<open>
  Claim C1. The claim says that the key translator never fails, and in particular that a
  chord whose modifier list is exactly \<^verbatim>\<open>["ctrl"]\<close> and whose base segment is a named
  key such as \<^verbatim>\<open>up\<close> yields a fallback value. In the source the \<^verbatim>\<open>ctrl\<close> branch
  applies \<^verbatim>\<open>ord\<close> to the base segment before any test of its length, so on
  \<^verbatim>\<open>"ctrl+up"\<close> the call raises \<^verbatim>\<open>TypeError\<close> and no value is returned; the same
  happens on \<^verbatim>\<open>"ctrl+"\<close>, whose base segment is empty.
\<close>

theorem keymap_ctrl_named_key_raises:
  "keymap ''ctrl+up'' = Inl TypeError \<and> keymap ''ctrl+'' = Inl TypeError"
  by (simp add: keymap_def rsplit1_def ord_py_def)

section \<open>Properties of the selection shape resolver\<close>

lemma block_loop_filter:
  "block_loop view left right rows regions =
     regions @
     map (\<lambda>r. (text_point view r left, text_point view r (min right (end_column view r))))
       (filter (\<lambda>r. left \<le> end_column view r) rows)"
  by (induction rows arbitrary: regions) (simp_all add: Let_def end_column_def)

lemma visual_examples:
  "visual (doc_geometry [5, 3, 4]) ''V'' (0, 1) (2, 1) = [(0, 14)]"
  "visual (doc_geometry [5, 3, 4]) ''V'' (2, 1) (0, 1) = [(14, 0)]"
  "visual (doc_geometry [5]) ''v'' (0, 0) (0, 2) = [(0, 3)]"
  "visual (doc_geometry [5]) ''v'' (0, 2) (0, 0) = [(3, 0)]"
  "visual (doc_geometry [5]) ''n'' (0, 2) (0, 2) = [(2, 2)]"
  by (simp_all add: visual_def doc_geometry_def row_start_def Let_def)

text \<open>
  Claim C3, as stated: in line mode with the anchor offset greater than the cursor offset,
  the one range runs from the end of the cursor's line to the start of the anchor's line.
  On a document with rows of 5, 3 and 4 characters, anchor on row 2 and cursor on row 0,
  the end of the cursor's line is offset 5 and the start of the anchor's line is offset 10,
  and the resolver does not return the range \<open>(5, 10)\<close>.
\<close>

theorem visual_line_cursor_end_counterexample:
  "text_point (doc_geometry [5, 3, 4]) 2 1 > text_point (doc_geometry [5, 3, 4]) 0 1 \<and>
   visual (doc_geometry [5, 3, 4]) ''V'' (2, 1) (0, 1) \<noteq>
     [(snd (line (doc_geometry [5, 3, 4]) (text_point (doc_geometry [5, 3, 4]) 0 1)),
       fst (line (doc_geometry [5, 3, 4]) (text_point (doc_geometry [5, 3, 4]) 2 1)))]"
  by (simp add: visual_def doc_geometry_def row_start_def Let_def)

text \<open>
  Claim C3, amended: in line mode with the anchor offset greater than the cursor offset,
  the resolver emits exactly one range, from the end of the anchor's line to the start of
  the cursor's line. It is a reversed range that covers every line from the cursor's to
  the anchor's: for anchor on row 2 and cursor on row 0 it runs from the end of row 2 back
  to the start of row 0.
\<close>

theorem visual_line_anchor_after_cursor:
  "text_point view sr sc > text_point view er ec \<Longrightarrow>
   visual view ''V'' (sr, sc) (er, ec) =
     [(snd (line view (text_point view sr sc)), fst (line view (text_point view er ec)))]"
  by (simp add: visual_def Let_def)

theorem visual_line_anchor_after_cursor_witness:
  "text_point (doc_geometry [5, 3, 4]) 2 1 > text_point (doc_geometry [5, 3, 4]) 0 1 \<and>
   visual (doc_geometry [5, 3, 4]) ''V'' (2, 1) (0, 1) =
     [(snd (line (doc_geometry [5, 3, 4]) (text_point (doc_geometry [5, 3, 4]) 2 1)),
       fst (line (doc_geometry [5, 3, 4]) (text_point (doc_geometry [5, 3, 4]) 0 1)))] \<and>
   snd (line (doc_geometry [5, 3, 4]) (text_point (doc_geometry [5, 3, 4]) 2 1)) = 14 \<and>
   fst (line (doc_geometry [5, 3, 4]) (text_point (doc_geometry [5, 3, 4]) 0 1)) = 0"
proof -
  have above: "text_point (doc_geometry [5, 3, 4]) 2 1 > text_point (doc_geometry [5, 3, 4]) 0 1"
    by (simp add: doc_geometry_def row_start_def)
  have ends: "snd (line (doc_geometry [5, 3, 4]) (text_point (doc_geometry [5, 3, 4]) 2 1)) = 14"
    "fst (line (doc_geometry [5, 3, 4]) (text_point (doc_geometry [5, 3, 4]) 0 1)) = 0"
    by (simp_all add: doc_geometry_def row_start_def)
  from above ends visual_line_anchor_after_cursor [OF above] show ?thesis
    by blast
qed

text \<open>
  Claim C4, as stated: in character mode on a 5-character line, anchor \<open>(0, 2)\<close> and
  cursor \<open>(0, 0)\<close> yield the range \<open>(0, 3)\<close>. The resolver adds one to the anchor's
  offset and keeps the order anchor, cursor, so the range it yields is \<open>(3, 0)\<close>.
\<close>

theorem visual_char_swapped_counterexample:
  "visual (doc_geometry [5]) ''v'' (0, 2) (0, 0) \<noteq> [(0, 3)]"
  by (simp add: visual_def doc_geometry_def row_start_def Let_def)

text \<open>
  Claim C4, amended: in character mode on a 5-character line, anchor \<open>(0, 0)\<close> and
  cursor \<open>(0, 2)\<close> yield the range \<open>(0, 3)\<close>, and anchor \<open>(0, 2)\<close> and cursor
  \<open>(0, 0)\<close> yield the reversed range \<open>(3, 0)\<close>, which covers the same characters; for
  every anchor and cursor, swapping the two leaves the covered extent of the range
  unchanged, because the one that is further on is the one extended by 1.
\<close>

theorem visual_char_span_symmetric:
  "map span (visual view ''v'' anchor cursor) = map span (visual view ''v'' cursor anchor) \<and>
   visual (doc_geometry [5]) ''v'' (0, 0) (0, 2) = [(0, 3)] \<and>
   visual (doc_geometry [5]) ''v'' (0, 2) (0, 0) = [(3, 0)] \<and>
   span (3, 0) = (0, 3)"
proof -
  have "map span (visual view ''v'' anchor cursor) = map span (visual view ''v'' cursor anchor)"
    by (cases anchor; cases cursor) (auto simp add: visual_def span_def Let_def)
  moreover have "visual (doc_geometry [5]) ''v'' (0, 0) (0, 2) = [(0, 3)]"
    by (simp add: visual_def doc_geometry_def row_start_def Let_def)
  moreover have "visual (doc_geometry [5]) ''v'' (0, 2) (0, 0) = [(3, 0)]"
    by (simp add: visual_def doc_geometry_def row_start_def Let_def)
  moreover have "span (3, 0) = (0, 3)"
    by (simp add: span_def)
  ultimately show ?thesis
    by blast
qed

text \<open>
  Claim C5. In block mode, with \<open>left\<close> the smaller of the two columns and \<open>right\<close> the
  larger plus 1, the resolver visits the rows from the top row to the bottom row in order,
  skips a row whose end column is below \<open>left\<close>, and for every other row \<open>r\<close> emits the
  range from \<open>(r, left)\<close> to \<open>(r, min right end)\<close>. On rows of 8, 3 and 1 characters, a
  block over columns 2 to 5 gives columns 2 to 6 on the first row, clamps the second row's
  range at its end column 3, and omits the third row.
\<close>

theorem visual_block_rows:
  "visual view [CHR 0x16] (sr, sc) (er, ec) =
     map (\<lambda>r. (text_point view r (min sc ec),
               text_point view r (min (max sc ec + 1) (end_column view r))))
       (filter (\<lambda>r. min sc ec \<le> end_column view r) [min sr er..max sr er]) \<and>
   visual (doc_geometry [8, 3, 1]) [CHR 0x16] (0, 2) (2, 5) =
     [(text_point (doc_geometry [8, 3, 1]) 0 2, text_point (doc_geometry [8, 3, 1]) 0 6),
      (text_point (doc_geometry [8, 3, 1]) 1 2, text_point (doc_geometry [8, 3, 1]) 1 3)]"
proof -
  have "visual view [CHR 0x16] (sr, sc) (er, ec) =
     map (\<lambda>r. (text_point view r (min sc ec),
               text_point view r (min (max sc ec + 1) (end_column view r))))
       (filter (\<lambda>r. min sc ec \<le> end_column view r) [min sr er..max sr er])"
    by (simp add: visual_def Let_def block_loop_filter)
  moreover have "visual (doc_geometry [8, 3, 1]) [CHR 0x16] (0, 2) (2, 5) =
     [(text_point (doc_geometry [8, 3, 1]) 0 2, text_point (doc_geometry [8, 3, 1]) 0 6),
      (text_point (doc_geometry [8, 3, 1]) 1 2, text_point (doc_geometry [8, 3, 1]) 1 3)]"
    by (simp add: visual_def doc_geometry_def row_start_def upto.simps Let_def)
  ultimately show ?thesis
    by blast
qed

section \<open>Properties of the registry\<close>

lemma get_absent_no_create:
  "map_of (views w) (view_id v) = None \<Longrightarrow> get cls v False exact w = Inr (None, w)"
  by (simp add: get_def)

lemma get_present_inexact:
  "map_of (views w) (view_id v) = Some old \<Longrightarrow> get cls v create False w = Inr (Some old, w)"
  by (simp add: get_def)

lemma get_present_mismatch:
  "map_of (views w) (view_id v) = Some old \<Longrightarrow> getattr old ''view'' = Inr x \<Longrightarrow>
   x \<noteq> PyView v \<Longrightarrow> get cls v create True w = Inr (None, w)"
  by (simp add: get_def)

lemma get_present_match:
  "map_of (views w) (view_id v) = Some old \<Longrightarrow> getattr old ''view'' = Inr (PyView v) \<Longrightarrow>
   get cls v create exact w = Inr (Some old, w)"
  by (simp add: get_def Let_def)

text \<open>Both initialisers of the source succeed and record the handle they are given.\<close>

lemma source_init_view:
  "cls_init cls = ViewMeta_init \<or> cls_init cls = ActualVim_init \<Longrightarrow>
   \<exists>d h. cls_init cls v h0 = (Inr d, h) \<and> d ''view'' = Some (PyView v)"
  by (auto simp add: ViewMeta_init_def ActualVim_init_def Let_def)

lemma get_create_source_class:
  assumes "map_of (views w) (view_id v) = None"
    and "cls_init cls = ViewMeta_init \<or> cls_init cls = ActualVim_init"
  shows "\<exists>m w1. get cls v True exact w = Inr (Some m, w1) \<and>
     map_of (views w1) (view_id v) = Some m \<and> getattr m ''view'' = Inr (PyView v) \<and>
     inst_id m = fresh w"
proof -
  from source_init_view [OF assms(2), of v "host (w\<lparr>fresh := fresh w + 1\<rparr>)"]
  obtain d h where "cls_init cls v (host (w\<lparr>fresh := fresh w + 1\<rparr>)) = (Inr d, h)"
    and "d ''view'' = Some (PyView v)"
    by blast
  with assms(1) show ?thesis
    by (simp add: get_def construct_def cls_new_def Let_def update_conv' getattr_def)
qed

text \<open>A failing initialiser: nothing is registered, and the caller gets \<^verbatim>\<open>None\<close>.\<close>

lemma get_create_fails:
  assumes "map_of (views w) (view_id v) = None"
    and "cls_init cls v (host w) = (Inl e, h)"
  shows "\<exists>w1. get cls v True exact w = Inr (None, w1) \<and> views w1 = views w \<and>
     tracebacks w1 = tracebacks w + 1"
  using assms by (simp add: get_def construct_def Let_def)

lemma get_twice_same:
  assumes src: "cls_init cls = ViewMeta_init \<or> cls_init cls = ActualVim_init"
    and live: "map_of (views w) (view_id v) = None \<or>
      (\<exists>old. map_of (views w) (view_id v) = Some old \<and> getattr old ''view'' = Inr (PyView v))"
  shows "\<exists>m w1. get cls v True exact w = Inr (Some m, w1) \<and>
     get cls v True exact w1 = Inr (Some m, w1)"
proof -
  from live show ?thesis
  proof
    assume "map_of (views w) (view_id v) = None"
    from get_create_source_class [OF this src, of exact]
    obtain m w1 where first: "get cls v True exact w = Inr (Some m, w1)"
      and reg: "map_of (views w1) (view_id v) = Some m"
      and bound: "getattr m ''view'' = Inr (PyView v)"
      by blast
    from get_present_match [OF reg bound] first show ?thesis
      by blast
  next
    assume "\<exists>old. map_of (views w) (view_id v) = Some old \<and>
      getattr old ''view'' = Inr (PyView v)"
    then obtain old where reg: "map_of (views w) (view_id v) = Some old"
      and bound: "getattr old ''view'' = Inr (PyView v)"
      by blast
    from get_present_match [OF reg bound] show ?thesis
      by blast
  qed
qed

lemma reload_loop_fresh: "fresh (reload_loop cls items w) = fresh w + length items"
  by (induction cls items w rule: reload_loop.induct) (simp_all add: Let_def)

lemma reload_loop_host: "host (reload_loop cls items w) = host w"
  by (induction cls items w rule: reload_loop.induct) (simp_all add: Let_def)

lemma reload_loop_other:
  "vid \<notin> fst ` set items \<Longrightarrow>
   map_of (views (reload_loop cls items w)) vid = map_of (views w) vid"
  by (induction cls items w rule: reload_loop.induct) (auto simp add: Let_def update_conv')

lemma reload_loop_entry:
  "distinct (map fst items) \<Longrightarrow> map_of items vid = Some old \<Longrightarrow>
   \<exists>new. map_of (views (reload_loop cls items w)) vid = Some new \<and>
     inst_class new = cls_tag cls \<and> inst_dict new = inst_dict old \<and> fresh w \<le> inst_id new"
proof (induction cls items w rule: reload_loop.induct)
  case (1 cls w)
  then show ?case by simp
next
  case (2 cls k x items w)
  show ?case
  proof (cases "vid = k")
    case True
    with 2 show ?thesis
      by (simp add: Let_def reload_loop_other update_conv' cls_new_def)
  next
    case False
    with 2 show ?thesis
      by (simp add: Let_def) (metis Suc_leD)
  qed
qed

lemma world7_facts:
  "distinct (map fst (views world7))"
  "map_of (views world7) 7 = Some meta7"
  "map_of (views world7) (view_id view7) = Some meta7"
  "map_of (views world7) (view_id view7') = Some meta7"
  "getattr meta7 ''view'' = Inr (PyView view7)"
  "view7 \<noteq> view7'"
  "getattr meta7 ''last_sel'' = Inr (PySel [(3, 3)])"
  by (simp_all add: world7_def meta7_def view7_def view7'_def getattr_def)

text \<open>
  Claim C2, as stated: after \<^verbatim>\<open>reload_classes\<close> every entry holds an object of the new
  class that keeps the old object's field values, and a field that the new class
  introduces has the new definition's default. The object \<open>meta7\<close> was made by
  \<^verbatim>\<open>ViewMeta\<close> and has no attribute \<^verbatim>\<open>buf\<close>; the initialiser of \<^verbatim>\<open>ActualVim\<close>
  introduces \<^verbatim>\<open>buf\<close> with the default \<^verbatim>\<open>None\<close>. After
  \<^verbatim>\<open>ActualVim.reload_classes()\<close> the migrated object still has no \<^verbatim>\<open>buf\<close>: the blank
  object is made without running the initialiser, so reading the attribute raises.
\<close>

theorem reload_classes_new_field_counterexample:
  "fst (cls_init (ActualVim 1) view7 (host world7)) =
     Inr [''view'' \<mapsto> PyView view7, ''last_sel'' \<mapsto> PyNone, ''buf'' \<mapsto> PyNone] \<and>
   view_attr world7 7 ''buf'' = Some (Inl AttributeError) \<and>
   view_attr (reload_classes (ActualVim 1) world7) 7 ''buf'' = Some (Inl AttributeError)"
  by (simp add: view_attr_def reload_classes_def world7_def meta7_def host0_def
      ActualVim_def ActualVim_init_def ViewMeta_init_def settings_get_def
      cls_new_def getattr_def Let_def)

text \<open>
  Claim C2, amended: for every entry of the registry, after \<^verbatim>\<open>reload_classes\<close> the entry
  holds a newly made object of the new class whose fields are exactly the old object's
  fields with their values (a \<^verbatim>\<open>last_sel\<close> of \<^verbatim>\<open>[(3, 3)]\<close> is kept as it is). The
  blank object of the new class has no fields of its own, so the overlay adds none.
\<close>

theorem reload_classes_keeps_fields:
  "distinct (map fst (views w)) \<Longrightarrow> map_of (views w) vid = Some old \<Longrightarrow>
   \<exists>new. map_of (views (reload_classes cls w)) vid = Some new \<and>
     inst_class new = cls_tag cls \<and> inst_dict new = inst_dict old \<and> fresh w \<le> inst_id new"
  unfolding reload_classes_def by (rule reload_loop_entry)

theorem reload_classes_keeps_fields_witness:
  "distinct (map fst (views world7)) \<and> map_of (views world7) 7 = Some meta7 \<and>
   inst_dict meta7 ''last_sel'' = Some (PySel [(3, 3)]) \<and>
   (\<exists>new. map_of (views (reload_classes (ActualVim 1) world7)) 7 = Some new \<and>
      inst_class new = cls_tag (ActualVim 1) \<and> inst_dict new = inst_dict meta7 \<and>
      fresh world7 \<le> inst_id new)"
proof -
  have keys: "distinct (map fst (views world7))"
    and entry: "map_of (views world7) 7 = Some meta7"
    and snapshot: "inst_dict meta7 ''last_sel'' = Some (PySel [(3, 3)])"
    by (simp_all add: world7_def meta7_def)
  from keys entry snapshot reload_classes_keeps_fields [OF keys entry, of "ActualVim 1"]
  show ?thesis
    by blast
qed

text \<open>
  Claim C6. (1) \<^verbatim>\<open>get\<close> with \<^verbatim>\<open>create=False\<close> on an id that is not registered returns
  \<^verbatim>\<open>None\<close> and changes nothing. (2) For a class of the source and a surface whose id is
  either not registered or registered for this very surface, \<^verbatim>\<open>get\<close> with
  \<^verbatim>\<open>create=True\<close> returns an object, and a second call in the resulting world returns
  the same object and changes nothing. (3) When the id is registered and the registered
  object records something other than the surface asked for, \<^verbatim>\<open>get\<close> with
  \<^verbatim>\<open>exact=True\<close> returns \<^verbatim>\<open>None\<close>.
\<close>

theorem get_lookup_behaviour:
  "(map_of (views w) (view_id v) = None \<longrightarrow> get cls v False exact w = Inr (None, w)) \<and>
   ((cls_init cls = ViewMeta_init \<or> cls_init cls = ActualVim_init) \<and>
    (map_of (views w) (view_id v) = None \<or>
     (\<exists>old. map_of (views w) (view_id v) = Some old \<and>
        getattr old ''view'' = Inr (PyView v))) \<longrightarrow>
    (\<exists>m w1. get cls v True exact w = Inr (Some m, w1) \<and>
       get cls v True exact w1 = Inr (Some m, w1))) \<and>
   (map_of (views w) (view_id v) = Some old \<and> getattr old ''view'' = Inr x \<and>
    x \<noteq> PyView v \<longrightarrow> get cls v create True w = Inr (None, w))"
  using get_absent_no_create [of w v cls exact] get_twice_same [of cls w v exact]
    get_present_mismatch [of w v old x cls create]
  by blast

theorem get_lookup_behaviour_witness:
  "map_of (views world0) (view_id view7) = None \<and>
   get (ActualVim 0) view7 False True world0 = Inr (None, world0) \<and>
   cls_init (ActualVim 0) = ActualVim_init \<and>
   (\<exists>m w1. get (ActualVim 0) view7 True True world0 = Inr (Some m, w1) \<and>
      get (ActualVim 0) view7 True True w1 = Inr (Some m, w1)) \<and>
   map_of (views world7) (view_id view7') = Some meta7 \<and>
   getattr meta7 ''view'' = Inr (PyView view7) \<and> PyView view7 \<noteq> PyView view7' \<and>
   get (ActualVim 0) view7' True True world7 = Inr (None, world7)"
proof -
  have absent: "map_of (views world0) (view_id view7) = None"
    by (simp add: world0_def)
  have src: "cls_init (ActualVim 0) = ActualVim_init"
    by (simp add: ActualVim_def)
  have stale: "map_of (views world7) (view_id view7') = Some meta7"
    "getattr meta7 ''view'' = Inr (PyView view7)" "PyView view7 \<noteq> PyView view7'"
    by (simp_all add: world7_facts)
  from absent src
    get_lookup_behaviour [of world0 view7 "ActualVim 0" True meta7 "PyView view7" True]
  have part12: "get (ActualVim 0) view7 False True world0 = Inr (None, world0) \<and>
    (\<exists>m w1. get (ActualVim 0) view7 True True world0 = Inr (Some m, w1) \<and>
       get (ActualVim 0) view7 True True w1 = Inr (Some m, w1))"
    by blast
  from stale
    get_lookup_behaviour [of world7 view7' "ActualVim 0" True meta7 "PyView view7" True]
  have part3: "get (ActualVim 0) view7' True True world7 = Inr (None, world7)"
    by blast
  from absent src stale part12 part3 show ?thesis
    by blast
qed

text \<open>
  Claim C7, as stated: with \<^verbatim>\<open>create=True\<close>, an id whose registered object records a
  different surface is treated as a miss and a new object is constructed for the current
  surface. With the id 7 registered for one surface and \<^verbatim>\<open>get\<close> called for the surface
  that has the id 7 now, the call returns \<^verbatim>\<open>None\<close> and leaves the world as it was: the
  stale entry stays, no object is made, and the caller has no binding.
\<close>

theorem get_mismatch_create_counterexample:
  "get (ActualVim 0) view7' True True world7 = Inr (None, world7)"
  by (simp add: get_def world7_def view7_def view7'_def meta7_def getattr_def)

text \<open>
  Claim C7, amended: when \<^verbatim>\<open>get\<close> is called with \<^verbatim>\<open>create=True\<close> and
  \<^verbatim>\<open>exact=True\<close> for an id whose registered object records a different surface, it
  returns \<^verbatim>\<open>None\<close>; nothing is constructed and the registry keeps the stale entry.
\<close>

theorem get_mismatch_no_construction:
  "map_of (views w) (view_id v) = Some old \<Longrightarrow> getattr old ''view'' = Inr x \<Longrightarrow>
   x \<noteq> PyView v \<Longrightarrow>
   get cls v True True w = Inr (None, w) \<and> map_of (views w) (view_id v) = Some old"
  by (simp add: get_present_mismatch)

theorem get_mismatch_no_construction_witness:
  "map_of (views world7) (view_id view7') = Some meta7 \<and>
   getattr meta7 ''view'' = Inr (PyView view7) \<and> PyView view7 \<noteq> PyView view7' \<and>
   get (ViewMeta 0) view7' True True world7 = Inr (None, world7) \<and>
   map_of (views world7) (view_id view7') = Some meta7"
proof -
  have stale: "map_of (views world7) (view_id view7') = Some meta7"
    and bound: "getattr meta7 ''view'' = Inr (PyView view7)"
    and other: "PyView view7 \<noteq> PyView view7'"
    by (simp_all add: world7_facts)
  from stale bound other get_mismatch_no_construction [OF stale bound other, of "ViewMeta 0"]
  show ?thesis
    by blast
qed

text \<open>
  Claim C10. With \<^verbatim>\<open>exact=False\<close>, \<^verbatim>\<open>get\<close> on a registered id returns the registered
  object and changes nothing, whatever surface the object records and whatever
  \<^verbatim>\<open>create\<close> is; the attribute \<^verbatim>\<open>view\<close> of the object is not read.
\<close>

theorem get_inexact_returns_stored:
  "map_of (views w) (view_id v) = Some old \<Longrightarrow> get cls v create False w = Inr (Some old, w)"
  by (rule get_present_inexact)

theorem get_inexact_returns_stored_witness:
  "map_of (views world7) (view_id view7') = Some meta7 \<and>
   getattr meta7 ''view'' = Inr (PyView view7) \<and> PyView view7 \<noteq> PyView view7' \<and>
   get (ActualVim 0) view7' True False world7 = Inr (Some meta7, world7)"
proof -
  have stale: "map_of (views world7) (view_id view7') = Some meta7"
    and bound: "getattr meta7 ''view'' = Inr (PyView view7)"
    and other: "PyView view7 \<noteq> PyView view7'"
    by (simp_all add: world7_facts)
  from stale bound other get_inexact_returns_stored [OF stale, of "ActualVim 0" True]
  show ?thesis
    by blast
qed

section \<open>Properties of the bridge\<close>

lemma self_view_Inr: "self_view st = Inr v \<longleftrightarrow> getattr (self st) ''view'' = Inr (PyView v)"
  by (auto simp add: self_view_def split: sum.splits pyval.splits)

lemma sel_from_vim_frame:
  "sel_from_vim N G st = Inr st' \<Longrightarrow>
   self st' = self st \<and> vim st' = vim st \<and> h_text (bhost st') = h_text (bhost st) \<and>
   h_edits (bhost st') = h_edits (bhost st) \<and> h_sel (bhost st') = h_sel (bhost st)"
  by (auto simp add: sel_from_vim_def Edit_defer_def Let_def split: prod.splits sum.splits)

lemma update_caret_frame:
  "update_caret N st = Inr st' \<Longrightarrow>
   self st' = self st \<and> vim st' = vim st \<and> h_text (bhost st') = h_text (bhost st) \<and>
   h_edits (bhost st') = h_edits (bhost st) \<and> h_sel (bhost st') = h_sel (bhost st)"
  by (auto simp add: update_caret_def settings_set_def Let_def split: sum.splits)

lemma sel_from_vim_returns:
  "getattr (self st) ''view'' = Inr (PyView v) \<Longrightarrow> \<exists>st'. sel_from_vim N G st = Inr st'"
  by (simp add: sel_from_vim_def self_view_def Let_def split: prod.splits)

lemma update_caret_returns:
  "getattr (self st) ''view'' = Inr (PyView v) \<Longrightarrow> \<exists>st'. update_caret N st = Inr st'"
  by (simp add: update_caret_def self_view_def Let_def)

lemma activate_focus_frame:
  "activate_focus N st = Inr st' \<Longrightarrow>
   self st' = self st \<and> bhost st' = bhost st \<and> (\<exists>h. getattr (self st) ''buf'' = Inr (PyBuf h))"
  by (auto simp add: activate_focus_def split: sum.splits pyval.splits)

lemma sel_changed_frame:
  "sel_changed st = Inr (c, st') \<Longrightarrow>
   bhost st' = bhost st \<and> vim st' = vim st \<and>
   getattr (self st') ''view'' = getattr (self st) ''view'' \<and>
   getattr (self st') ''buf'' = getattr (self st) ''buf''"
  by (auto simp add: sel_changed_def setattr_def getattr_def Let_def split: sum.splits)

lemma sel_to_vim_body_frame:
  assumes "sel_to_vim_body N G st = Inr st'"
  shows "h_text (bhost st') = h_text (bhost st) \<and> h_edits (bhost st') = h_edits (bhost st) \<and>
   getattr (self st') ''view'' = getattr (self st) ''view'' \<and>
   getattr (self st') ''buf'' = getattr (self st) ''buf''"
proof -
  from assms obtain c st1 where sc: "sel_changed st = Inr (c, st1)"
    by (auto simp add: sel_to_vim_body_def split: sum.splits)
  note f1 = sel_changed_frame [OF sc]
  show ?thesis
  proof (cases c)
    case False
    with assms sc have "st' = st1"
      by (simp add: sel_to_vim_body_def)
    with f1 show ?thesis by simp
  next
    case True
    with assms sc obtain e st2 where sf: "sel_from_vim N G (st1\<lparr>vim := e\<rparr>) = Inr st2"
      and uc: "update_caret N st2 = Inr st'"
      by (auto simp add: sel_to_vim_body_def Let_def split: sum.splits list.splits)
    from sel_from_vim_frame [OF sf] update_caret_frame [OF uc] f1 show ?thesis
      by simp
  qed
qed

lemma activate_frame:
  assumes "activate N G st = Inr st'"
  shows "h_text (bhost st') = h_text (bhost st) \<and> h_edits (bhost st') = h_edits (bhost st) \<and>
   getattr (self st') ''view'' = getattr (self st) ''view'' \<and>
   (\<exists>h. getattr (self st') ''buf'' = Inr (PyBuf h))"
proof -
  from assms obtain buf where b: "getattr (self st) ''buf'' = Inr buf"
    by (auto simp add: activate_def split: sum.splits)
  show ?thesis
  proof (cases "buf = PyNone")
    case False
    with assms b have "activate_focus N st = Inr st'"
      by (simp add: activate_def)
    from activate_focus_frame [OF this] show ?thesis
      by auto
  next
    case True
    obtain h e where bn: "buf_new N (vim st) = (h, e)"
      by (cases "buf_new N (vim st)")
    define st1 where "st1 = st\<lparr>self := setattr (self st) ''buf'' (PyBuf h), vim := e\<rparr>"
    from assms b True bn obtain v st2 st3 st4 where
      "activate_focus N st2 = Inr st3" "sel_to_vim_body N G st3 = Inr st4"
      "activate_focus N st4 = Inr st'"
      and st2: "self st2 = self st1" "bhost st2 = bhost st1"
      by (auto simp add: activate_def Let_def st1_def split: sum.splits)
    from activate_focus_frame [OF this(1)] sel_to_vim_body_frame [OF this(2)]
      activate_focus_frame [OF this(3)] st2
    show ?thesis
      by (auto simp add: st1_def setattr_def getattr_def)
  qed
qed

lemma apply_replace_everything:
  "apply_replace text ((0, int (length text)), s) = s"
  by (simp add: apply_replace_def)

lemma activate_returns:
  assumes view: "getattr (self st) ''view'' = Inr (PyView v)"
    and buf: "getattr (self st) ''buf'' = Inr PyNone \<or> (\<exists>h. getattr (self st) ''buf'' = Inr (PyBuf h))"
    and prev: "getattr (self st) ''last_sel'' = Inr p"
    and sel: "h_sel (bhost st) v \<noteq> []"
  shows "\<exists>st1. activate N G st = Inr st1"
  using assms
  by (auto simp add: activate_def activate_focus_def sel_to_vim_body_def sel_changed_def
      sel_from_vim_def update_caret_def self_view_def setattr_def getattr_def copy_sel_def
      Let_def neq_Nil_conv split: prod.splits)

text \<open>
  Claim C8. When the activation at the start of \<^verbatim>\<open>press\<close> returns and the key
  translates, \<^verbatim>\<open>press\<close> returns and the engine has been given the translated key.
  Afterwards the text of the surface is the joined content of the engine's buffer and the
  text of no other surface has changed. The host has committed no edit transaction for
  the call when the text was that content already, and exactly one when it was not: a
  single replacement of the whole text, from 0 to its size, by the content.
\<close>

theorem press_replaces_iff_differs:
  assumes act: "activate N G st = Inr st1"
    and key: "keymap key = Inr k"
    and view: "getattr (self st) ''view'' = Inr (PyView v)"
  shows "\<exists>st' h. press N G key st = Inr st' \<and>
     getattr (self st') ''buf'' = Inr (PyBuf h) \<and>
     vim st' = vim_press N k (vim st1) \<and>
     h_text (bhost st') = (h_text (bhost st))(v := join_py [CHR 0x0A] (buf_get N h (vim st'))) \<and>
     h_edits (bhost st') = h_edits (bhost st) @
       (if h_text (bhost st) v = join_py [CHR 0x0A] (buf_get N h (vim st')) then []
        else [(v, [((0, int (length (h_text (bhost st) v))),
                    join_py [CHR 0x0A] (buf_get N h (vim st')))])])"
proof -
  from activate_frame [OF act] view obtain h where
    text1: "h_text (bhost st1) = h_text (bhost st)"
    and edits1: "h_edits (bhost st1) = h_edits (bhost st)"
    and view1: "getattr (self st1) ''view'' = Inr (PyView v)"
    and buf1: "getattr (self st1) ''buf'' = Inr (PyBuf h)"
    by auto
  define st2 where "st2 = st1\<lparr>vim := vim_press N k (vim st1)\<rparr>"
  define t where "t = join_py [CHR 0x0A] (buf_get N h (vim st2))"
  define st3 where "st3 = (if h_text (bhost st2) v \<noteq> t
      then st2\<lparr>bhost := Edit_block v [((0, int (length (h_text (bhost st2) v))), t)] (bhost st2)\<rparr>
      else st2)"
  have view3: "getattr (self st3) ''view'' = Inr (PyView v)"
    using view1 by (simp add: st3_def st2_def)
  from sel_from_vim_returns [OF view3] obtain st4 where sf: "sel_from_vim N G st3 = Inr st4"
    by blast
  note f4 = sel_from_vim_frame [OF sf]
  with view3 have "getattr (self st4) ''view'' = Inr (PyView v)"
    by simp
  from update_caret_returns [OF this] obtain st5 where uc: "update_caret N st4 = Inr st5"
    by blast
  note f5 = update_caret_frame [OF uc]
  have "press N G key st =
      (case sel_from_vim N G st3 of Inl e \<Rightarrow> Inl e | Inr st4 \<Rightarrow> update_caret N st4)"
    using act buf1 key view1
    by (simp add: press_def Let_def self_view_def st3_def t_def st2_def)
  with sf uc have p: "press N G key st = Inr st5"
    by simp
  have self5: "self st5 = self st1" and vim5: "vim st5 = vim st2"
    using f4 f5 by (simp_all add: st3_def st2_def)
  have text3: "h_text (bhost st3) = (h_text (bhost st))(v := t)"
    using text1 by (auto simp add: st3_def st2_def Edit_block_def apply_replace_everything)
  have edits3: "h_edits (bhost st3) = h_edits (bhost st) @
       (if h_text (bhost st) v = t then []
        else [(v, [((0, int (length (h_text (bhost st) v))), t)])])"
    using text1 edits1 by (simp add: st3_def st2_def Edit_block_def)
  from p self5 vim5 text3 edits3 f4 f5 buf1 show ?thesis
    by (auto simp add: t_def st2_def)
qed

theorem press_replaces_iff_differs_witness:
  "\<exists>st1. activate toy_neo text_geometry bridge8 = Inr st1 \<and>
     keymap ''x'' = Inr ''x'' \<and>
     getattr (self bridge8) ''view'' = Inr (PyView view8) \<and>
     (\<exists>st' h. press toy_neo text_geometry ''x'' bridge8 = Inr st' \<and>
        getattr (self st') ''buf'' = Inr (PyBuf h) \<and>
        vim st' = vim_press toy_neo ''x'' (vim st1) \<and>
        h_text (bhost st') =
          (h_text (bhost bridge8))(view8 := join_py [CHR 0x0A] (buf_get toy_neo h (vim st'))) \<and>
        h_edits (bhost st') = h_edits (bhost bridge8) @
          (if h_text (bhost bridge8) view8 = join_py [CHR 0x0A] (buf_get toy_neo h (vim st'))
           then []
           else [(view8, [((0, int (length (h_text (bhost bridge8) view8))),
                           join_py [CHR 0x0A] (buf_get toy_neo h (vim st')))])]))"
proof -
  have view: "getattr (self bridge8) ''view'' = Inr (PyView view8)"
    and buf: "getattr (self bridge8) ''buf'' = Inr PyNone \<or>
      (\<exists>h. getattr (self bridge8) ''buf'' = Inr (PyBuf h))"
    and prev: "getattr (self bridge8) ''last_sel'' = Inr PyNone"
    and sel: "h_sel (bhost bridge8) view8 \<noteq> []"
    by (simp_all add: bridge8_def actual8_def getattr_def)
  from activate_returns [OF view buf prev sel, of toy_neo text_geometry]
  obtain st1 where act: "activate toy_neo text_geometry bridge8 = Inr st1"
    by blast
  have key: "keymap ''x'' = Inr ''x''"
    by (simp add: keymap_def dict_get_def KEYMAP_def)
  from act key view press_replaces_iff_differs [OF act key view] show ?thesis
    by blast
qed

lemmas bridge_defs =
  press_def activate_def activate_focus_def sel_to_vim_body_def sel_changed_def
  sel_from_vim_def update_caret_def self_view_def setattr_def getattr_def copy_sel_def
  Edit_block_def Edit_defer_def apply_replace_def settings_set_def keymap_def dict_get_def
  KEYMAP_def ESC_def Let_def bridge8_def actual8_def toy_neo_def toy_press_def host0_def
  toy0_def view8_def

text \<open>
  The surface \<open>view8\<close> holds \<^verbatim>\<open>ab\<close>. The key \<^verbatim>\<open>x\<close> makes the engine's buffer
  \<^verbatim>\<open>abx\<close>, and the text is replaced in one transaction; the key \<^verbatim>\<open>escape\<close> leaves
  the buffer as it is, and there is no transaction; the key \<^verbatim>\<open>ctrl+up\<close> does not
  translate, and \<^verbatim>\<open>press\<close> raises before the engine is called.
\<close>

lemma press_examples:
  "map_sum id (\<lambda>st. (h_text (bhost st) view8, h_edits (bhost st)))
     (press toy_neo text_geometry ''x'' bridge8) =
   Inr (''abx'', [(view8, [((0, 2), ''abx'')])])"
  "map_sum id (\<lambda>st. (h_text (bhost st) view8, h_edits (bhost st)))
     (press toy_neo text_geometry ''escape'' bridge8) = Inr (''ab'', [])"
  "press toy_neo text_geometry ''ctrl+up'' bridge8 = Inl TypeError"
  by (simp_all add: bridge_defs rsplit1_def ord_py_def)

section \<open>Properties of the panel adapter\<close>

lemma ActualPanel_init_source_object:
  "ActualPanel_init actual8 = Inl AttributeError"
  by (simp add: ActualPanel_init_def actual8_def getattr_def)

text \<open>
  Claim C9, as stated: when \<^verbatim>\<open>show\<close> is invoked while an earlier panel is open, the
  earlier panel is closed before or as part of opening the new one. After
  \<^verbatim>\<open>show(':')\<close> the adapter holds the panel with the id 100; \<^verbatim>\<open>show('/')\<close> then
  asks the host for a second panel, and no call closes the first one.
\<close>

theorem panel_show_twice_counterexample:
  "p_panel (fst (snd (panel_show '':'' (adapter8, pworld0)))) =
     Some \<lparr>view_id = 100, view_serial = 0\<rparr> \<and>
   pw_calls (snd (snd (panel_show ''/'' (snd (panel_show '':'' (adapter8, pworld0)))))) =
     [ShowInputPanel view8 ''Vim'' '':'', ShowInputPanel view8 ''Vim'' ''/''] \<and>
   ClosePanel \<lparr>view_id = 100, view_serial = 0\<rparr> \<notin>
     set (pw_calls (snd (snd (panel_show ''/'' (snd (panel_show '':'' (adapter8, pworld0)))))))"
  by (simp add: panel_show_def Let_def adapter8_def pworld0_def)

text \<open>
  Claim C9, amended: the adapter records at most one panel at a time. \<^verbatim>\<open>show\<close> asks
  the host to open a new panel and records it in place of whatever panel was recorded
  before; the one call it makes on the host's panels is that \<^verbatim>\<open>show_input_panel\<close>, so
  it closes no panel.
\<close>

theorem panel_show_records_new_panel:
  "p_panel (fst (snd (panel_show char (ad, pw)))) =
     Some \<lparr>view_id = pw_next pw, view_serial = 0\<rparr> \<and>
   pw_calls (snd (snd (panel_show char (ad, pw)))) =
     pw_calls pw @ [ShowInputPanel (p_view ad) ''Vim'' char]"
  by (simp add: panel_show_def Let_def split: option.splits)

end
